theory Spec2Isabelle
  imports Complex_Main
begin

section \<open>The FindShops page: data\<close>

text \<open>
  A shallow embedding of \<^verbatim>\<open>src/pages/FindShops.tsx\<close>. The page keeps six state slots,
  runs two effects, builds two queries against the remote data store and renders one of
  three views. JavaScript strings are modelled as \<^typ>\<open>string\<close>; the page only tests
  them for emptiness, compares them with \<^verbatim>\<open>"all"\<close> and concatenates them.
\<close>

text \<open>The \<^verbatim>\<open>Business\<close> interface. Optional fields are options. The page never computes
  with \<^verbatim>\<open>rating\<close>; it is carried as a real number.\<close>

record Business =
  id_field :: string
  name :: string
  description :: "string option"
  category :: string
  address :: "string option"
  city :: "string option"
  state :: "string option"
  zip_code :: "string option"
  phone :: "string option"
  email :: "string option"
  website :: "string option"
  image_url :: "string option"
  rating :: real
  owner_id :: string
  created_at :: string
  updated_at :: string

text \<open>A row of \<^verbatim>\<open>business_categories\<close> as selected by the page: \<^verbatim>\<open>{ name: string }\<close>.\<close>

datatype CategoryRow = CategoryRow (cat_name: string)

text \<open>An error object, as thrown by the client or returned in the \<^verbatim>\<open>error\<close> slot.\<close>

datatype js_error = JsError (message: string)

text \<open>The argument of \<^verbatim>\<open>toast({ title, description, variant })\<close>.\<close>

record toast_options =
  title :: string
  description_text :: string
  variant :: string

subsection \<open>The query builder\<close>

text \<open>
  A query is the chain of builder calls made on the client, in call order:
  \<^verbatim>\<open>supabase.from(t).select(c).order(col, opts).or(s).eq(col, v)\<close>. The second argument
  of \<^verbatim>\<open>order\<close> is optional; \<open>None\<close> is the call without it, \<open>Some a\<close> the call with
  \<^verbatim>\<open>{ ascending: a }\<close>.
\<close>

datatype builder_call =
    FromTable string
  | SelectCols string
  | OrderBy string "bool option"
  | OrFilter string
  | EqFilter string string

type_synonym query = "builder_call list"

definition supabase_from :: "string \<Rightarrow> query" where
  "supabase_from t = [FromTable t]"

definition select :: "string \<Rightarrow> query \<Rightarrow> query" where
  "select cols q = q @ [SelectCols cols]"

definition order_by :: "string \<Rightarrow> bool option \<Rightarrow> query \<Rightarrow> query" where
  "order_by col opts q = q @ [OrderBy col opts]"

definition or_filter :: "string \<Rightarrow> query \<Rightarrow> query" where
  "or_filter s q = q @ [OrFilter s]"

definition eq_filter :: "string \<Rightarrow> string \<Rightarrow> query \<Rightarrow> query" where
  "eq_filter col v q = q @ [EqFilter col v]"

text \<open>The client sorts ascending unless the options say otherwise.\<close>

fun ascending :: "bool option \<Rightarrow> bool" where
  "ascending None = True"
| "ascending (Some a) = a"

text \<open>The filter calls of a chain, in call order.\<close>

fun is_filter :: "builder_call \<Rightarrow> bool" where
  "is_filter (OrFilter s) = True"
| "is_filter (EqFilter col v) = True"
| "is_filter c = False"

definition filters :: "query \<Rightarrow> builder_call list" where
  "filters q = filter is_filter q"

text \<open>
  Chained filter calls narrow the result: the store returns a row when every filter of
  the chain holds for it. What one filter means for a row is the store's business and is
  a parameter here.
\<close>

definition selects :: "(builder_call \<Rightarrow> 'row \<Rightarrow> bool) \<Rightarrow> query \<Rightarrow> 'row \<Rightarrow> bool" where
  "selects holds q r = list_all (\<lambda>c. holds c r) (filters q)"

text \<open>
  What the store answers. An awaited query resolves to \<^verbatim>\<open>{ data, error }\<close>, either
  of which may be null, or the await rejects with an error.
\<close>

datatype 'row response =
    Resolved (data: "'row list option") (error: "js_error option")
  | Rejected js_error

subsection \<open>The synonym dictionary\<close>

text \<open>
  \<^verbatim>\<open>expandSearchTerms\<close> and \<^verbatim>\<open>normalizeCategoryName\<close> are imported from
  \<^verbatim>\<open>@/utils/synonymDictionary\<close>, which is not part of the page. They are taken as
  parameters: two pure functions.
\<close>

record synonymDictionary =
  expandSearchTerms :: "string \<Rightarrow> string list"
  normalizeCategoryName :: "string \<Rightarrow> string"

subsection \<open>Building the businesses query\<close>

text \<open>\<^verbatim>\<open>Array.prototype.join\<close> on an array of strings.\<close>

fun join :: "string \<Rightarrow> string list \<Rightarrow> string" where
  "join sep [] = []"
| "join sep [x] = x"
| "join sep (x # y # ys) = x @ sep @ join sep (y # ys)"

text \<open>The template literal mapped over the expanded terms (line 79).\<close>

definition termConditions :: "string \<Rightarrow> string" where
  "termConditions term =
     ''name.ilike.%'' @ term @ ''%,description.ilike.%'' @ term
       @ ''%,products_catalog.ilike.%'' @ term @ ''%''"

definition searchQuery :: "synonymDictionary \<Rightarrow> string \<Rightarrow> string" where
  "searchQuery d st = join '','' (map termConditions (expandSearchTerms d st))"

text \<open>The template literal of the location filter (line 92).\<close>

definition locationQuery :: "string \<Rightarrow> string" where
  "locationQuery loc = ''city.ilike.%'' @ loc @ ''%,state.ilike.%'' @ loc @ ''%''"

text \<open>The query of \<^verbatim>\<open>fetchCategories\<close> (lines 55 to 58).\<close>

definition categoriesQuery :: query where
  "categoriesQuery = order_by ''name'' None (select ''name'' (supabase_from ''business_categories''))"

section \<open>The page: state and effects\<close>

text \<open>
  Everything the page does to the outside world or to its own state is recorded, in
  program order, in \<open>trace\<close>: the state setters it calls, the queries it awaits, what it
  writes to the console and the notifications it raises.
\<close>

datatype effect =
    SetBusinesses "Business list"
  | SetCategories "string list"
  | SetLoading bool
  | Await query
  | ConsoleError string js_error
  | Toast toast_options

record page =
  businesses :: "Business list"
  categories :: "string list"
  loading :: bool
  searchTerm :: string
  selectedCategory :: string
  locationFilter :: string
  trace :: "effect list"

text \<open>The \<^verbatim>\<open>useState\<close> initial values (lines 31 to 36).\<close>

definition initial :: page where
  "initial = \<lparr>businesses = [], categories = [], loading = True, searchTerm = [],
              selectedCategory = ''all'', locationFilter = [], trace = []\<rparr>"

definition setBusinesses :: "Business list \<Rightarrow> page \<Rightarrow> page" where
  "setBusinesses v s = s\<lparr>businesses := v, trace := trace s @ [SetBusinesses v]\<rparr>"

definition setCategories :: "string list \<Rightarrow> page \<Rightarrow> page" where
  "setCategories v s = s\<lparr>categories := v, trace := trace s @ [SetCategories v]\<rparr>"

definition setLoading :: "bool \<Rightarrow> page \<Rightarrow> page" where
  "setLoading v s = s\<lparr>loading := v, trace := trace s @ [SetLoading v]\<rparr>"

definition await :: "query \<Rightarrow> page \<Rightarrow> page" where
  "await q s = s\<lparr>trace := trace s @ [Await q]\<rparr>"

definition console_error :: "string \<Rightarrow> js_error \<Rightarrow> page \<Rightarrow> page" where
  "console_error msg e s = s\<lparr>trace := trace s @ [ConsoleError msg e]\<rparr>"

definition toast :: "toast_options \<Rightarrow> page \<Rightarrow> page" where
  "toast t s = s\<lparr>trace := trace s @ [Toast t]\<rparr>"

subsection \<open>fetchCategories\<close>

text \<open>
  An \<^verbatim>\<open>async\<close> function runs up to its \<^verbatim>\<open>await\<close> when it is called and resumes
  when the store has answered. \<open>fetchCategories_issue\<close> is the first part,
  \<open>fetchCategories_settle\<close> the second, applied to the state the page has by then.
\<close>

definition fetchCategories_issue :: "page \<Rightarrow> page" where
  "fetchCategories_issue s = await categoriesQuery s"

text \<open>The \<^verbatim>\<open>try\<close> block after the await: \<open>Inl\<close> is the thrown error.
  \<^verbatim>\<open>data?.map(...) || []\<close> is the mapped array when \<^verbatim>\<open>data\<close> is an array (an array
  is truthy, also when empty) and \<^verbatim>\<open>[]\<close> when it is null.\<close>

definition fetchCategories_try :: "page \<Rightarrow> CategoryRow response \<Rightarrow> js_error + page" where
  "fetchCategories_try s r =
     (case r of
        Rejected e \<Rightarrow> Inl e
      | Resolved d err \<Rightarrow>
          (case err of
             Some e \<Rightarrow> Inl e
           | None \<Rightarrow> Inr (setCategories (case d of None \<Rightarrow> [] | Some rows \<Rightarrow> map cat_name rows) s)))"

definition fetchCategories_settle :: "page \<Rightarrow> CategoryRow response \<Rightarrow> page" where
  "fetchCategories_settle s r =
     (case fetchCategories_try s r of
        Inl e \<Rightarrow> console_error ''Error fetching categories:'' e s
      | Inr s' \<Rightarrow> s')"

subsection \<open>fetchBusinesses\<close>

text \<open>
  The query of \<^verbatim>\<open>fetchBusinesses\<close> (lines 70 to 93), from the three filter values of
  the render that started the fetch. A JavaScript string is truthy when it is not empty.
\<close>

definition businessesQuery :: "synonymDictionary \<Rightarrow> page \<Rightarrow> query" where
  "businessesQuery d s =
     (let query = order_by ''rating'' (Some False) (select ''*'' (supabase_from ''businesses''));
          query = (if searchTerm s \<noteq> []
                   then or_filter (searchQuery d (searchTerm s)) query else query);
          query = (if selectedCategory s \<noteq> ''all''
                   then eq_filter ''category'' (normalizeCategoryName d (selectedCategory s)) query
                   else query);
          query = (if locationFilter s \<noteq> []
                   then or_filter (locationQuery (locationFilter s)) query else query)
      in query)"

definition fetchBusinesses_issue :: "synonymDictionary \<Rightarrow> page \<Rightarrow> page" where
  "fetchBusinesses_issue d s =
     await (businessesQuery d s) (setLoading True s)"

text \<open>The \<^verbatim>\<open>try\<close> block after the await (lines 95 to 98).\<close>

definition fetchBusinesses_try :: "page \<Rightarrow> Business response \<Rightarrow> js_error + page" where
  "fetchBusinesses_try s r =
     (case r of
        Rejected e \<Rightarrow> Inl e
      | Resolved d err \<Rightarrow>
          (case err of
             Some e \<Rightarrow> Inl e
           | None \<Rightarrow> Inr (setBusinesses (case d of None \<Rightarrow> [] | Some rows \<Rightarrow> rows) s)))"

text \<open>The \<^verbatim>\<open>catch\<close> block (lines 100 to 105).\<close>

definition fetchBusinesses_catch :: "js_error \<Rightarrow> page \<Rightarrow> page" where
  "fetchBusinesses_catch e s =
     toast \<lparr>title = ''Error'',
            description_text = ''Failed to fetch businesses. Please try again.'',
            variant = ''destructive''\<rparr>
       (console_error ''Error fetching businesses:'' e s)"

text \<open>\<^verbatim>\<open>try\<close>, \<^verbatim>\<open>catch\<close>, then \<^verbatim>\<open>finally\<close> (line 107).\<close>

definition fetchBusinesses_settle :: "page \<Rightarrow> Business response \<Rightarrow> page" where
  "fetchBusinesses_settle s r =
     setLoading False
       (case fetchBusinesses_try s r of
          Inl e \<Rightarrow> fetchBusinesses_catch e s
        | Inr s' \<Rightarrow> s')"

text \<open>A fetch that nothing interleaves with.\<close>

definition fetchBusinesses :: "synonymDictionary \<Rightarrow> page \<Rightarrow> Business response \<Rightarrow> page" where
  "fetchBusinesses d s r = fetchBusinesses_settle (fetchBusinesses_issue d s) r"

subsection \<open>The two effects\<close>

text \<open>The effect with no dependencies (lines 39 to 41).\<close>

definition categoriesEffect :: "page \<Rightarrow> page" where
  "categoriesEffect s = fetchCategories_issue s"

text \<open>The effect that depends on the three filter values (lines 43 to 51).\<close>

definition filtersEffect :: "synonymDictionary \<Rightarrow> page \<Rightarrow> page" where
  "filtersEffect d s =
     (if searchTerm s \<noteq> [] \<or> selectedCategory s \<noteq> ''all'' \<or> locationFilter s \<noteq> []
      then fetchBusinesses_issue d s
      else setLoading False (setBusinesses [] s))"

subsection \<open>The renderer\<close>

text \<open>The children of the results container (lines 139 to 157). A skeleton carries its
  key, a card its key and its business, the empty state its two lines.\<close>

datatype node =
    BusinessSkeleton nat
  | PopularBusinessCard string Business
  | EmptyState string string

definition renderResults :: "page \<Rightarrow> node list" where
  "renderResults s =
     (if loading s then map BusinessSkeleton [0..<6]
      else if length (businesses s) > 0
      then map (\<lambda>business. PopularBusinessCard (id_field business) business) (businesses s)
      else [EmptyState ''No businesses found matching your criteria.''
              ''Try adjusting your search filters or browse all categories.''])"

subsection \<open>The life of a mounted page\<close>

text \<open>
  After the first render both effects run, in the order they are declared. Later, the
  filter control calls the three setters; the calls of one handler are batched into one
  render, after which the filters effect runs again when one of its dependencies has a
  new value. The store's answers arrive in between.
\<close>

definition mount :: "synonymDictionary \<Rightarrow> page" where
  "mount d = filtersEffect d (categoriesEffect initial)"

datatype setter_call =
    SetSearchTerm string
  | SetSelectedCategory string
  | SetLocationFilter string

fun apply_setter :: "page \<Rightarrow> setter_call \<Rightarrow> page" where
  "apply_setter s (SetSearchTerm v) = s\<lparr>searchTerm := v\<rparr>"
| "apply_setter s (SetSelectedCategory v) = s\<lparr>selectedCategory := v\<rparr>"
| "apply_setter s (SetLocationFilter v) = s\<lparr>locationFilter := v\<rparr>"

datatype event =
    FilterInput "setter_call list"
  | CategoriesSettled "CategoryRow response"
  | BusinessesSettled "Business response"

definition dependencies :: "page \<Rightarrow> string \<times> string \<times> string" where
  "dependencies s = (searchTerm s, selectedCategory s, locationFilter s)"

fun handle :: "synonymDictionary \<Rightarrow> page \<Rightarrow> event \<Rightarrow> page" where
  "handle d s (FilterInput calls) =
     (let s' = foldl apply_setter s calls
      in if dependencies s' = dependencies s then s' else filtersEffect d s')"
| "handle d s (CategoriesSettled r) = fetchCategories_settle s r"
| "handle d s (BusinessesSettled r) = fetchBusinesses_settle s r"

definition run :: "synonymDictionary \<Rightarrow> event list \<Rightarrow> page" where
  "run d evs = foldl (handle d) (mount d) evs"

section \<open>The store's filter language\<close>






text \<open>
  \<^verbatim>\<open>ilike\<close> matches a value against a pattern without regard to letter case (of the
  ASCII letters, in this model). In a pattern, \<^verbatim>\<open>%\<close> stands for any run of characters,
  and so does \<^verbatim>\<open>*\<close>, which the store takes for \<^verbatim>\<open>%\<close>; \<^verbatim>\<open>_\<close> stands for any one
  character; a backslash takes the next character literally. A condition on a column
  that is null, or that the row does not have, holds for no pattern.
\<close>

definition lower :: "char \<Rightarrow> char" where
  "lower c =
     (case map_of (zip ''ABCDEFGHIJKLMNOPQRSTUVWXYZ'' ''abcdefghijklmnopqrstuvwxyz'') c of
        None \<Rightarrow> c
      | Some l \<Rightarrow> l)"

definition wild :: "char \<Rightarrow> bool" where
  "wild c = (c = CHR ''%'' \<or> c = CHR ''*'')"

fun like :: "string \<Rightarrow> string \<Rightarrow> bool" where
  "like [] v = (v = [])"
| "like (p # ps) v =
     (if wild p then
        like ps v \<or> (case v of [] \<Rightarrow> False | c # cs \<Rightarrow> like (p # ps) cs)
      else if p = CHR 0x5C then
        (case ps of
           [] \<Rightarrow> False
         | q # qs \<Rightarrow> (case v of [] \<Rightarrow> False | c # cs \<Rightarrow> q = c \<and> like qs cs))
      else if p = CHR ''_'' then
        (case v of [] \<Rightarrow> False | c # cs \<Rightarrow> like ps cs)
      else
        (case v of [] \<Rightarrow> False | c # cs \<Rightarrow> p = c \<and> like ps cs))"

definition ilike :: "string \<Rightarrow> string \<Rightarrow> bool" where
  "ilike pat v = like (map lower pat) (map lower v)"

text \<open>A row of the store: its text columns by name.\<close>

type_synonym row = "string \<Rightarrow> string option"



subsection \<open>The two clauses, as the specification words them\<close>






text \<open>\<open>occurs_in t v\<close>: the text \<open>t\<close> is a run of consecutive characters of \<open>v\<close>.\<close>

fun occurs_in :: "string \<Rightarrow> string \<Rightarrow> bool" where
  "occurs_in t [] = (t = [])"
| "occurs_in t (c # cs) = (take (length t) (c # cs) = t \<or> occurs_in t cs)"









section \<open>Reading a trace\<close>

text \<open>The queries awaited and the notifications raised in a trace, oldest first.\<close>

fun awaited :: "effect list \<Rightarrow> query list" where
  "awaited [] = []"
| "awaited (Await q # es) = q # awaited es"
| "awaited (e # es) = awaited es"

fun toasts :: "effect list \<Rightarrow> toast_options list" where
  "toasts [] = []"
| "toasts (Toast t # es) = t # toasts es"
| "toasts (e # es) = toasts es"


fun eq_calls :: "query \<Rightarrow> (string \<times> string) list" where
  "eq_calls [] = []"
| "eq_calls (EqFilter col v # q) = (col, v) # eq_calls q"
| "eq_calls (c # q) = eq_calls q"

text \<open>The error a \<^verbatim>\<open>try\<close> block throws on an answer, if any: the rejection of the
  await, or the answer's \<^verbatim>\<open>error\<close> when it is not null.\<close>

fun thrown :: "'row response \<Rightarrow> js_error option" where
  "thrown (Rejected e) = Some e"
| "thrown (Resolved d err) = err"

text \<open>Whether a query reads the categories collection.\<close>

definition reads_categories :: "query \<Rightarrow> bool" where
  "reads_categories q = (FromTable ''business_categories'' \<in> set q)"

subsection \<open>Sample data\<close>

definition coffee_dictionary :: synonymDictionary where
  "coffee_dictionary =
     \<lparr>expandSearchTerms = (\<lambda>t. if t = ''coffee'' then [''coffee'', ''cafe''] else [t]),
      normalizeCategoryName = (\<lambda>c. if c = ''Cafes'' then ''cafe'' else c)\<rparr>"

definition shop :: "string \<Rightarrow> string \<Rightarrow> Business" where
  "shop i n =
     \<lparr>id_field = i, name = n, description = None, category = ''cafe'', address = None,
      city = Some ''Austin'', state = Some ''TX'', zip_code = None, phone = None,
      email = None, website = None, image_url = None, rating = 4, owner_id = ''o1'',
      created_at = ''2024-01-01'', updated_at = ''2024-01-02''\<rparr>"

text \<open>A toy reading of single filters, for evaluating \<open>selects\<close> on sample rows.\<close>

definition sample_holds :: "builder_call \<Rightarrow> Business \<Rightarrow> bool" where
  "sample_holds c r =
     (case c of
        EqFilter col v \<Rightarrow> col = ''category'' \<and> category r = v
      | OrFilter t \<Rightarrow> t = locationQuery ''Austin''
                       \<and> (city r = Some ''Austin'' \<or> state r = Some ''Austin'')
      | _ \<Rightarrow> False)"

definition sample_events :: "event list" where
  "sample_events =
     [FilterInput [SetSearchTerm ''coffee''],
      CategoriesSettled (Rejected (JsError ''offline'')),
      BusinessesSettled (Resolved (Some [shop ''b1'' ''Bean'']) None),
      FilterInput [SetSearchTerm [], SetLocationFilter ''Austin'']]"



section \<open>Facts about the queries\<close>









lemma businessesQuery_calls:
  "businessesQuery d s =
     [FromTable ''businesses'', SelectCols ''*'', OrderBy ''rating'' (Some False)]
     @ (if searchTerm s \<noteq> [] then [OrFilter (searchQuery d (searchTerm s))] else [])
     @ (if selectedCategory s \<noteq> ''all''
        then [EqFilter ''category'' (normalizeCategoryName d (selectedCategory s))] else [])
     @ (if locationFilter s \<noteq> [] then [OrFilter (locationQuery (locationFilter s))] else [])"
  by (simp add: businessesQuery_def Let_def supabase_from_def select_def order_by_def
      or_filter_def eq_filter_def)

lemma filters_businessesQuery:
  "filters (businessesQuery d s) =
     (if searchTerm s \<noteq> [] then [OrFilter (searchQuery d (searchTerm s))] else [])
     @ (if selectedCategory s \<noteq> ''all''
        then [EqFilter ''category'' (normalizeCategoryName d (selectedCategory s))] else [])
     @ (if locationFilter s \<noteq> [] then [OrFilter (locationQuery (locationFilter s))] else [])"
  by (simp add: businessesQuery_calls filters_def)

lemma trace_fetchBusinesses_issue:
  "trace (fetchBusinesses_issue d s) = trace s @ [SetLoading True, Await (businessesQuery d s)]"
  by (simp add: fetchBusinesses_issue_def await_def setLoading_def)

section \<open>Facts about the filter language\<close>





























lemma occurs_in_iff: "occurs_in t v \<longleftrightarrow> (\<exists>pre post. v = pre @ t @ post)"
proof (induction v)
  case Nil
  show ?case by auto
next
  case (Cons c v)
  show ?case
  proof
    assume "occurs_in t (c # v)"
    then consider "take (length t) (c # v) = t" | "occurs_in t v" by auto
    then show "\<exists>pre post. c # v = pre @ t @ post"
    proof cases
      case 1
      then have "c # v = [] @ t @ drop (length t) (c # v)"
        by (metis append_Nil append_take_drop_id)
      then show ?thesis by blast
    next
      case 2
      with Cons.IH obtain pre post where "v = pre @ t @ post" by blast
      then have "c # v = (c # pre) @ t @ post" by simp
      then show ?thesis by blast
    qed
  next
    assume "\<exists>pre post. c # v = pre @ t @ post"
    then obtain pre post where eq: "c # v = pre @ t @ post" by blast
    show "occurs_in t (c # v)"
    proof (cases pre)
      case Nil
      with eq have "take (length t) (c # v) = t" by simp
      then show ?thesis by simp
    next
      case (Cons a pre')
      with eq have "v = pre' @ t @ post" by simp
      with Cons.IH show ?thesis by auto
    qed
  qed
qed

section \<open>Facts about traces and effects\<close>

lemma awaited_append: "awaited (es @ fs) = awaited es @ awaited fs"
  by (induction es rule: awaited.induct) simp_all

lemma toasts_append: "toasts (es @ fs) = toasts es @ toasts fs"
  by (induction es rule: toasts.induct) simp_all

lemma filtersEffect_default:
  assumes "searchTerm s = []" and "selectedCategory s = ''all''" and "locationFilter s = []"
  shows "filtersEffect d s = setLoading False (setBusinesses [] s)"
  using assms by (simp add: filtersEffect_def)

lemma fetchBusinesses_try_thrown:
  "thrown r = Some e \<Longrightarrow> fetchBusinesses_try s r = Inl e"
  by (cases r) (simp_all add: fetchBusinesses_try_def)

lemma fetchBusinesses_settle_thrown:
  "thrown r = Some e \<Longrightarrow>
     fetchBusinesses_settle s r = setLoading False (fetchBusinesses_catch e s)"
  by (simp add: fetchBusinesses_settle_def fetchBusinesses_try_thrown)


lemma eq_calls_append: "eq_calls (p @ q) = eq_calls p @ eq_calls q"
  by (induction p rule: eq_calls.induct) simp_all

lemma selects_businessesQuery:
  "selects holds (businessesQuery d s) r \<longleftrightarrow>
     (searchTerm s \<noteq> [] \<longrightarrow> holds (OrFilter (searchQuery d (searchTerm s))) r)
     \<and> (selectedCategory s \<noteq> ''all'' \<longrightarrow>
          holds (EqFilter ''category'' (normalizeCategoryName d (selectedCategory s))) r)
     \<and> (locationFilter s \<noteq> [] \<longrightarrow> holds (OrFilter (locationQuery (locationFilter s))) r)"
  by (simp add: selects_def filters_businessesQuery)

lemma trace_filtersEffect:
  "trace (filtersEffect d s) = trace s @
     (if searchTerm s \<noteq> [] \<or> selectedCategory s \<noteq> ''all'' \<or> locationFilter s \<noteq> []
      then [SetLoading True, Await (businessesQuery d s)]
      else [SetBusinesses [], SetLoading False])"
  by (simp add: filtersEffect_def trace_fetchBusinesses_issue setLoading_def setBusinesses_def)

lemma categories_filtersEffect: "categories (filtersEffect d s) = categories s"
  by (simp add: filtersEffect_def fetchBusinesses_issue_def await_def setLoading_def
      setBusinesses_def)

lemma businessesQuery_not_categories: "\<not> reads_categories (businessesQuery d s)"
  by (simp add: reads_categories_def businessesQuery_calls)

lemma categoriesQuery_calls:
  "categoriesQuery = [FromTable ''business_categories'', SelectCols ''name'', OrderBy ''name'' None]"
  by (simp add: categoriesQuery_def supabase_from_def select_def order_by_def)

lemma reads_categories_categoriesQuery: "reads_categories categoriesQuery"
  by (simp add: reads_categories_def categoriesQuery_calls)

lemma trace_apply_setters: "trace (foldl apply_setter s calls) = trace s"
proof (induction calls arbitrary: s)
  case Nil
  show ?case by simp
next
  case (Cons c calls)
  show ?case by (cases c) (simp_all add: Cons.IH)
qed

lemma categories_apply_setters: "categories (foldl apply_setter s calls) = categories s"
proof (induction calls arbitrary: s)
  case Nil
  show ?case by simp
next
  case (Cons c calls)
  show ?case by (cases c) (simp_all add: Cons.IH)
qed

lemma fetchCategories_try_thrown:
  "thrown r = Some e \<Longrightarrow> fetchCategories_try s r = Inl e"
  by (cases r) (simp_all add: fetchCategories_try_def)

lemma fetchCategories_settle_thrown:
  "thrown r = Some e \<Longrightarrow>
     fetchCategories_settle s r = console_error ''Error fetching categories:'' e s"
  by (simp add: fetchCategories_settle_def fetchCategories_try_thrown)

lemma fetchCategories_settle_ok:
  "thrown r = None \<Longrightarrow>
     fetchCategories_settle s r =
       setCategories (case data r of None \<Rightarrow> [] | Some rows \<Rightarrow> map cat_name rows) s"
  by (cases r) (simp_all add: fetchCategories_settle_def fetchCategories_try_def)

lemma fetchBusinesses_settle_ok:
  "thrown r = None \<Longrightarrow>
     fetchBusinesses_settle s r =
       setLoading False (setBusinesses (case data r of None \<Rightarrow> [] | Some rows \<Rightarrow> rows) s)"
  by (cases r) (simp_all add: fetchBusinesses_settle_def fetchBusinesses_try_def)

lemma awaited_fetchCategories_settle:
  "awaited (trace (fetchCategories_settle s r)) = awaited (trace s)"
proof (cases "thrown r")
  case None
  then show ?thesis
    by (simp add: fetchCategories_settle_ok setCategories_def awaited_append)
next
  case (Some e)
  then show ?thesis
    by (simp add: fetchCategories_settle_thrown console_error_def awaited_append)
qed

lemma awaited_fetchBusinesses_settle:
  "awaited (trace (fetchBusinesses_settle s r)) = awaited (trace s)"
proof (cases "thrown r")
  case None
  then show ?thesis
    by (simp add: fetchBusinesses_settle_ok setLoading_def setBusinesses_def awaited_append)
next
  case (Some e)
  then show ?thesis
    by (simp add: fetchBusinesses_settle_thrown fetchBusinesses_catch_def setLoading_def
        toast_def console_error_def awaited_append)
qed

lemma categories_fetchBusinesses_settle:
  "categories (fetchBusinesses_settle s r) = categories s"
proof (cases "thrown r")
  case None
  then show ?thesis
    by (simp add: fetchBusinesses_settle_ok setLoading_def setBusinesses_def)
next
  case (Some e)
  then show ?thesis
    by (simp add: fetchBusinesses_settle_thrown fetchBusinesses_catch_def setLoading_def
        toast_def console_error_def)
qed

section \<open>Facts about the life of a page\<close>

text \<open>No event after the mount awaits a query on the categories collection.\<close>

lemma category_reads_handle:
  "filter reads_categories (awaited (trace (handle d s ev)))
     = filter reads_categories (awaited (trace s))"
proof (cases ev)
  case (FilterInput calls)
  then show ?thesis
    by (simp add: Let_def trace_filtersEffect trace_apply_setters awaited_append
        businessesQuery_not_categories)
next
  case (CategoriesSettled r)
  then show ?thesis by (simp add: awaited_fetchCategories_settle)
next
  case (BusinessesSettled r)
  then show ?thesis by (simp add: awaited_fetchBusinesses_settle)
qed

lemma category_reads_foldl:
  "filter reads_categories (awaited (trace (foldl (handle d) s evs)))
     = filter reads_categories (awaited (trace s))"
proof (induction evs arbitrary: s)
  case Nil
  show ?case by simp
next
  case (Cons ev evs)
  show ?case by (simp add: Cons.IH category_reads_handle)
qed

lemma mount_result:
  "mount d = initial\<lparr>loading := False,
                     trace := [Await categoriesQuery, SetBusinesses [], SetLoading False]\<rparr>"
  by (simp add: mount_def categoriesEffect_def fetchCategories_issue_def await_def
      filtersEffect_def initial_def setLoading_def setBusinesses_def)

lemma category_reads_run:
  "filter reads_categories (awaited (trace (run d evs))) = [categoriesQuery]"
  by (simp add: run_def category_reads_foldl mount_result reads_categories_categoriesQuery)

text \<open>The category list stays empty as long as no category fetch succeeds.\<close>

lemma categories_handle_failed:
  assumes "categories s = []" and "\<forall>r. ev = CategoriesSettled r \<longrightarrow> thrown r \<noteq> None"
  shows "categories (handle d s ev) = []"
proof (cases ev)
  case (FilterInput calls)
  then show ?thesis
    using assms(1) by (simp add: Let_def categories_filtersEffect categories_apply_setters)
next
  case (CategoriesSettled r)
  with assms(2) obtain e where "thrown r = Some e" by auto
  then show ?thesis
    using assms(1) CategoriesSettled
    by (simp add: fetchCategories_settle_thrown console_error_def)
next
  case (BusinessesSettled r)
  then show ?thesis
    using assms(1) by (simp add: categories_fetchBusinesses_settle)
qed

lemma categories_foldl_failed:
  assumes "categories s = []" and "\<forall>r. CategoriesSettled r \<in> set evs \<longrightarrow> thrown r \<noteq> None"
  shows "categories (foldl (handle d) s evs) = []"
  using assms
proof (induction evs arbitrary: s)
  case Nil
  then show ?case by simp
next
  case (Cons ev evs)
  have "categories (handle d s ev) = []"
    using Cons.prems by (intro categories_handle_failed) auto
  moreover have "\<forall>r. CategoriesSettled r \<in> set evs \<longrightarrow> thrown r \<noteq> None"
    using Cons.prems(2) by auto
  ultimately show ?case
    using Cons.IH by simp
qed

section \<open>The business fetcher\<close>




text \<open>
  C2. With an empty search text, the category \<^verbatim>\<open>"all"\<close> and an empty location text,
  the filters effect awaits no query: it calls \<^verbatim>\<open>setBusinesses([])\<close> and then
  \<^verbatim>\<open>setLoading(false)\<close> and nothing else, so the list is empty and the flag is false
  afterwards, whatever they were before.
\<close>

theorem default_filters_skip_fetch:
  assumes "searchTerm s = []" and "selectedCategory s = ''all''" and "locationFilter s = []"
  shows "trace (filtersEffect d s) = trace s @ [SetBusinesses [], SetLoading False]
       \<and> awaited (trace (filtersEffect d s)) = awaited (trace s)
       \<and> businesses (filtersEffect d s) = []
       \<and> loading (filtersEffect d s) = False"
  by (simp add: filtersEffect_default [OF assms] setLoading_def setBusinesses_def awaited_append)

theorem default_filters_skip_fetch_witness:
  "trace (filtersEffect coffee_dictionary
            (initial\<lparr>businesses := [shop ''b1'' ''Bean''], trace := [SetLoading True]\<rparr>))
     = [SetLoading True, SetBusinesses [], SetLoading False]
   \<and> awaited (trace (filtersEffect coffee_dictionary
            (initial\<lparr>businesses := [shop ''b1'' ''Bean''], trace := [SetLoading True]\<rparr>))) = []
   \<and> businesses (filtersEffect coffee_dictionary
            (initial\<lparr>businesses := [shop ''b1'' ''Bean''], trace := [SetLoading True]\<rparr>)) = []
   \<and> loading (filtersEffect coffee_dictionary
            (initial\<lparr>businesses := [shop ''b1'' ''Bean''], trace := [SetLoading True]\<rparr>)) = False"
  using default_filters_skip_fetch
    [of "initial\<lparr>businesses := [shop ''b1'' ''Bean''], trace := [SetLoading True]\<rparr>"
        coffee_dictionary]
  by (simp add: initial_def)

text \<open>
  C3. A business fetch fails when the await rejects or the answer carries an error. The
  page then does three things, in this order: it writes the error to the console, raises
  one notification (title \<^verbatim>\<open>Error\<close>, a description asking to try again, variant
  \<^verbatim>\<open>destructive\<close>) and, last, calls \<^verbatim>\<open>setLoading(false)\<close>. The business list is
  the one shown before the fetch.
\<close>

theorem fetch_failure:
  assumes "thrown r = Some e"
  shows "trace (fetchBusinesses_settle s r) =
           trace s @ [ConsoleError ''Error fetching businesses:'' e,
                      Toast \<lparr>title = ''Error'',
                             description_text = ''Failed to fetch businesses. Please try again.'',
                             variant = ''destructive''\<rparr>,
                      SetLoading False]
       \<and> toasts (trace (fetchBusinesses_settle s r)) =
           toasts (trace s) @ [\<lparr>title = ''Error'',
                             description_text = ''Failed to fetch businesses. Please try again.'',
                             variant = ''destructive''\<rparr>]
       \<and> businesses (fetchBusinesses_settle s r) = businesses s
       \<and> loading (fetchBusinesses_settle s r) = False
       \<and> businesses (fetchBusinesses d s r) = businesses s"
  by (simp add: fetchBusinesses_settle_thrown [OF assms] fetchBusinesses_def
      fetchBusinesses_catch_def setLoading_def toast_def console_error_def toasts_append
      fetchBusinesses_issue_def await_def)

theorem fetch_failure_witness:
  "trace (fetchBusinesses_settle
            (initial\<lparr>businesses := [shop ''b1'' ''Bean''],
                     trace := [SetLoading True, Await []]\<rparr>)
            (Resolved None (Some (JsError ''timeout'')))) =
      [SetLoading True, Await [], ConsoleError ''Error fetching businesses:'' (JsError ''timeout''),
       Toast \<lparr>title = ''Error'',
              description_text = ''Failed to fetch businesses. Please try again.'',
              variant = ''destructive''\<rparr>,
       SetLoading False]
   \<and> businesses (fetchBusinesses_settle
            (initial\<lparr>businesses := [shop ''b1'' ''Bean''],
                     trace := [SetLoading True, Await []]\<rparr>)
            (Resolved None (Some (JsError ''timeout'')))) = [shop ''b1'' ''Bean'']
   \<and> loading (fetchBusinesses_settle
            (initial\<lparr>businesses := [shop ''b1'' ''Bean''],
                     trace := [SetLoading True, Await []]\<rparr>)
            (Resolved None (Some (JsError ''timeout'')))) = False
   \<and> businesses (fetchBusinesses_settle
            (initial\<lparr>businesses := [shop ''b1'' ''Bean'']\<rparr>)
            (Rejected (JsError ''offline''))) = [shop ''b1'' ''Bean'']
   \<and> toasts (trace (fetchBusinesses_settle
            (initial\<lparr>businesses := [shop ''b1'' ''Bean'']\<rparr>)
            (Rejected (JsError ''offline'')))) =
      [\<lparr>title = ''Error'',
        description_text = ''Failed to fetch businesses. Please try again.'',
        variant = ''destructive''\<rparr>]"
  using fetch_failure
    [of "Resolved None (Some (JsError ''timeout''))" "JsError ''timeout''"
        "initial\<lparr>businesses := [shop ''b1'' ''Bean''], trace := [SetLoading True, Await []]\<rparr>"
        coffee_dictionary]
    fetch_failure
    [of "Rejected (JsError ''offline'')" "JsError ''offline''"
        "initial\<lparr>businesses := [shop ''b1'' ''Bean'']\<rparr>" coffee_dictionary]
  by (simp add: initial_def)

text \<open>
  C4. When the answer carries no error, the business list becomes the rows of the answer,
  whatever the list was before; an answer with no rows, or with \<^verbatim>\<open>data\<close> null, gives
  the empty list. The page calls \<^verbatim>\<open>setBusinesses\<close> once, then \<^verbatim>\<open>setLoading(false)\<close>.
\<close>

theorem fetch_success:
  "businesses (fetchBusinesses_settle s (Resolved rows None)) =
      (case rows of None \<Rightarrow> [] | Some bs \<Rightarrow> bs)
   \<and> businesses (fetchBusinesses_settle s (Resolved (Some []) None)) = []
   \<and> businesses (fetchBusinesses_settle s (Resolved None None)) = []
   \<and> businesses (fetchBusinesses d s (Resolved rows None)) =
      (case rows of None \<Rightarrow> [] | Some bs \<Rightarrow> bs)
   \<and> trace (fetchBusinesses_settle s (Resolved rows None)) =
      trace s @ [SetBusinesses (case rows of None \<Rightarrow> [] | Some bs \<Rightarrow> bs), SetLoading False]"
  by (simp add: fetchBusinesses_settle_def fetchBusinesses_try_def fetchBusinesses_def
      setLoading_def setBusinesses_def)

theorem fetch_success_witness:
  "businesses (fetchBusinesses_settle (initial\<lparr>businesses := [shop ''b1'' ''Bean'']\<rparr>)
      (Resolved (Some [shop ''b2'' ''Cup'', shop ''b3'' ''Mug'']) None))
     = [shop ''b2'' ''Cup'', shop ''b3'' ''Mug'']
   \<and> businesses (fetchBusinesses_settle (initial\<lparr>businesses := [shop ''b1'' ''Bean'']\<rparr>)
      (Resolved (Some []) None)) = []
   \<and> businesses (fetchBusinesses_settle (initial\<lparr>businesses := [shop ''b1'' ''Bean'']\<rparr>)
      (Resolved None None)) = []"
  using fetch_success
    [of "initial\<lparr>businesses := [shop ''b1'' ''Bean'']\<rparr>"
        "Some [shop ''b2'' ''Cup'', shop ''b3'' ''Mug'']" coffee_dictionary]
  by simp

text \<open>
  C6. When the selected category is not \<^verbatim>\<open>"all"\<close>, the query has exactly one
  \<^verbatim>\<open>.eq()\<close> filter: the column \<^verbatim>\<open>category\<close> must equal
  \<^verbatim>\<open>normalizeCategoryName(selectedCategory)\<close>. When it is \<^verbatim>\<open>"all"\<close>, the query has no
  \<^verbatim>\<open>.eq()\<close> filter at all.
\<close>

theorem category_clause:
  "(selectedCategory s \<noteq> ''all'' \<longrightarrow>
      EqFilter ''category'' (normalizeCategoryName d (selectedCategory s))
        \<in> set (filters (businessesQuery d s))
      \<and> eq_calls (businessesQuery d s) =
          [(''category'', normalizeCategoryName d (selectedCategory s))])
   \<and> (selectedCategory s = ''all'' \<longrightarrow> eq_calls (businessesQuery d s) = [])"
proof -
  have "selectedCategory s \<noteq> ''all'' \<longrightarrow>
      EqFilter ''category'' (normalizeCategoryName d (selectedCategory s))
        \<in> set (filters (businessesQuery d s))"
    by (simp add: filters_businessesQuery)
  moreover have "eq_calls (businessesQuery d s) =
      (if selectedCategory s \<noteq> ''all''
       then [(''category'', normalizeCategoryName d (selectedCategory s))] else [])"
    by (simp add: businessesQuery_calls eq_calls_append)
  ultimately show ?thesis by simp
qed

theorem category_clause_witness:
  "EqFilter ''category'' ''cafe''
     \<in> set (filters (businessesQuery coffee_dictionary (initial\<lparr>selectedCategory := ''Cafes''\<rparr>)))
   \<and> eq_calls (businessesQuery coffee_dictionary (initial\<lparr>selectedCategory := ''Cafes''\<rparr>))
       = [(''category'', ''cafe'')]
   \<and> eq_calls (businessesQuery coffee_dictionary (initial\<lparr>searchTerm := ''tea''\<rparr>)) = []"
  using category_clause [of "initial\<lparr>selectedCategory := ''Cafes''\<rparr>" coffee_dictionary]
    category_clause [of "initial\<lparr>searchTerm := ''tea''\<rparr>" coffee_dictionary]
  by (simp add: initial_def coffee_dictionary_def)




text \<open>
  C8. The query a business fetch awaits is: from \<^verbatim>\<open>businesses\<close>, select \<^verbatim>\<open>*\<close>, order
  by \<^verbatim>\<open>rating\<close> with \<^verbatim>\<open>ascending: false\<close>, followed by its filters and nothing else.
  The filters are the clauses that are present, in the order search, category, location,
  and a row is selected exactly when every present clause holds for it.
\<close>

theorem query_shape:
  "trace (fetchBusinesses_issue d s) = trace s @ [SetLoading True, Await (businessesQuery d s)]
   \<and> businessesQuery d s =
       [FromTable ''businesses'', SelectCols ''*'', OrderBy ''rating'' (Some False)]
       @ filters (businessesQuery d s)
   \<and> \<not> ascending (Some False)
   \<and> filters (businessesQuery d s) =
       (if searchTerm s \<noteq> [] then [OrFilter (searchQuery d (searchTerm s))] else [])
       @ (if selectedCategory s \<noteq> ''all''
          then [EqFilter ''category'' (normalizeCategoryName d (selectedCategory s))] else [])
       @ (if locationFilter s \<noteq> [] then [OrFilter (locationQuery (locationFilter s))] else [])
   \<and> (selects holds (businessesQuery d s) r \<longleftrightarrow>
       (searchTerm s \<noteq> [] \<longrightarrow> holds (OrFilter (searchQuery d (searchTerm s))) r)
       \<and> (selectedCategory s \<noteq> ''all'' \<longrightarrow>
            holds (EqFilter ''category'' (normalizeCategoryName d (selectedCategory s))) r)
       \<and> (locationFilter s \<noteq> [] \<longrightarrow> holds (OrFilter (locationQuery (locationFilter s))) r))"
proof -
  have "businessesQuery d s =
       [FromTable ''businesses'', SelectCols ''*'', OrderBy ''rating'' (Some False)]
       @ filters (businessesQuery d s)"
    by (simp only: filters_businessesQuery) (rule businessesQuery_calls)
  then show ?thesis
    using trace_fetchBusinesses_issue [of d s] filters_businessesQuery [of d s]
      selects_businessesQuery [of holds d s r]
    by simp
qed

theorem query_shape_witness:
  "businessesQuery coffee_dictionary
      (initial\<lparr>selectedCategory := ''Cafes'', locationFilter := ''Austin''\<rparr>) =
     [FromTable ''businesses'', SelectCols ''*'', OrderBy ''rating'' (Some False),
      EqFilter ''category'' ''cafe'', OrFilter ''city.ilike.%Austin%,state.ilike.%Austin%'']
   \<and> selects sample_holds
        (businessesQuery coffee_dictionary
           (initial\<lparr>selectedCategory := ''Cafes'', locationFilter := ''Austin''\<rparr>))
        (shop ''b1'' ''Bean'')
   \<and> \<not> selects sample_holds
        (businessesQuery coffee_dictionary
           (initial\<lparr>selectedCategory := ''Cafes'', locationFilter := ''Austin''\<rparr>))
        ((shop ''b1'' ''Bean'')\<lparr>category := ''bakery''\<rparr>)"
  using query_shape
    [where d = coffee_dictionary and holds = sample_holds and r = "shop ''b1'' ''Bean''"
       and s = "initial\<lparr>selectedCategory := ''Cafes'', locationFilter := ''Austin''\<rparr>"]
    query_shape
    [where d = coffee_dictionary and holds = sample_holds
       and r = "(shop ''b1'' ''Bean'')\<lparr>category := ''bakery''\<rparr>"
       and s = "initial\<lparr>selectedCategory := ''Cafes'', locationFilter := ''Austin''\<rparr>"]
  by (simp add: initial_def coffee_dictionary_def sample_holds_def shop_def locationQuery_def
      selects_def filters_def businessesQuery_calls)

section \<open>The renderer\<close>

text \<open>
  C5. The results container has one of three contents. While the loading flag is set:
  six skeletons with keys 0 to 5, whatever the business list holds. Otherwise, with a
  list of K > 0 businesses: K cards, the i-th showing the i-th business under that
  business's id as key. Otherwise: the empty state, with its message and its hint.
\<close>

theorem render_three_way:
  "(loading s \<longrightarrow>
      renderResults s = [BusinessSkeleton 0, BusinessSkeleton 1, BusinessSkeleton 2,
                         BusinessSkeleton 3, BusinessSkeleton 4, BusinessSkeleton 5])
   \<and> (\<not> loading s \<and> length (businesses s) > 0 \<longrightarrow>
        length (renderResults s) = length (businesses s)
        \<and> (\<forall>i < length (businesses s).
              renderResults s ! i =
                PopularBusinessCard (id_field (businesses s ! i)) (businesses s ! i)))
   \<and> (\<not> loading s \<and> length (businesses s) = 0 \<longrightarrow>
        renderResults s =
          [EmptyState ''No businesses found matching your criteria.''
             ''Try adjusting your search filters or browse all categories.''])"
proof -
  have six: "[0..<6] = [0, 1, 2, 3, 4, 5::nat]"
    by (simp add: upt_rec)
  show ?thesis
    by (simp add: renderResults_def six)
qed

theorem render_three_way_witness:
  "renderResults (initial\<lparr>businesses := [shop ''b1'' ''Bean'']\<rparr>) =
      [BusinessSkeleton 0, BusinessSkeleton 1, BusinessSkeleton 2,
       BusinessSkeleton 3, BusinessSkeleton 4, BusinessSkeleton 5]
   \<and> length (renderResults
        (initial\<lparr>businesses := [shop ''b2'' ''Cup'', shop ''b1'' ''Bean''], loading := False\<rparr>)) = 2
   \<and> renderResults
        (initial\<lparr>businesses := [shop ''b2'' ''Cup'', shop ''b1'' ''Bean''], loading := False\<rparr>) ! 0
       = PopularBusinessCard ''b2'' (shop ''b2'' ''Cup'')
   \<and> renderResults
        (initial\<lparr>businesses := [shop ''b2'' ''Cup'', shop ''b1'' ''Bean''], loading := False\<rparr>) ! 1
       = PopularBusinessCard ''b1'' (shop ''b1'' ''Bean'')
   \<and> renderResults (initial\<lparr>loading := False\<rparr>) =
       [EmptyState ''No businesses found matching your criteria.''
          ''Try adjusting your search filters or browse all categories.'']"
  using render_three_way [of "initial\<lparr>businesses := [shop ''b1'' ''Bean'']\<rparr>"]
    render_three_way
      [of "initial\<lparr>businesses := [shop ''b2'' ''Cup'', shop ''b1'' ''Bean''], loading := False\<rparr>"]
    render_three_way [of "initial\<lparr>loading := False\<rparr>"]
  by (simp add: initial_def shop_def)

section \<open>The category loader\<close>

text \<open>
  C9. In every run of a mounted page, whatever the filter inputs and answers that follow
  the mount, exactly one query on the categories collection is awaited: from
  \<^verbatim>\<open>business_categories\<close>, select \<^verbatim>\<open>name\<close>, order by \<^verbatim>\<open>name\<close> (ascending, the
  client's default). On an answer without error the category list becomes the names of
  the rows. On a failed fetch the page writes the error to the console and does nothing
  else: no notification, and the category list is what it was; in a run where no
  category fetch succeeds it is empty.
\<close>

theorem categories_fetched_once:
  "filter reads_categories (awaited (trace (run d evs))) = [categoriesQuery]
   \<and> categoriesQuery =
       [FromTable ''business_categories'', SelectCols ''name'', OrderBy ''name'' None]
   \<and> ascending None
   \<and> categories (fetchCategories_settle s (Resolved rows None)) =
       (case rows of None \<Rightarrow> [] | Some rs \<Rightarrow> map cat_name rs)
   \<and> (thrown r = Some e \<longrightarrow>
        trace (fetchCategories_settle s r) =
          trace s @ [ConsoleError ''Error fetching categories:'' e]
        \<and> toasts (trace (fetchCategories_settle s r)) = toasts (trace s)
        \<and> categories (fetchCategories_settle s r) = categories s)
   \<and> ((\<forall>a. CategoriesSettled a \<in> set evs \<longrightarrow> thrown a \<noteq> None) \<longrightarrow>
        categories (run d evs) = [])"
proof -
  have settle_ok: "categories (fetchCategories_settle s (Resolved rows None)) =
       (case rows of None \<Rightarrow> [] | Some rs \<Rightarrow> map cat_name rs)"
    by (simp add: fetchCategories_settle_ok setCategories_def)
  have settle_failed: "thrown r = Some e \<longrightarrow>
        trace (fetchCategories_settle s r) =
          trace s @ [ConsoleError ''Error fetching categories:'' e]
        \<and> toasts (trace (fetchCategories_settle s r)) = toasts (trace s)
        \<and> categories (fetchCategories_settle s r) = categories s"
    by (simp add: fetchCategories_settle_thrown console_error_def toasts_append)
  have stays_empty: "(\<forall>a. CategoriesSettled a \<in> set evs \<longrightarrow> thrown a \<noteq> None) \<longrightarrow>
        categories (run d evs) = []"
    unfolding run_def
    by (intro impI categories_foldl_failed) (simp_all add: mount_result initial_def)
  have once: "filter reads_categories (awaited (trace (run d evs))) = [categoriesQuery]"
    by (rule category_reads_run)
  have calls: "categoriesQuery =
       [FromTable ''business_categories'', SelectCols ''name'', OrderBy ''name'' None]"
    by (rule categoriesQuery_calls)
  have asc: "ascending None"
    by simp
  show ?thesis
    by (intro conjI; fact)
qed

theorem categories_fetched_once_witness:
  "filter reads_categories (awaited (trace (run coffee_dictionary sample_events)))
     = [categoriesQuery]
   \<and> categories (fetchCategories_settle initial
        (Resolved (Some [CategoryRow ''Bakery'', CategoryRow ''Cafes'']) None))
     = [''Bakery'', ''Cafes'']
   \<and> trace (fetchCategories_settle initial (Rejected (JsError ''offline'')))
     = [ConsoleError ''Error fetching categories:'' (JsError ''offline'')]
   \<and> toasts (trace (fetchCategories_settle initial (Rejected (JsError ''offline'')))) = []
   \<and> categories (run coffee_dictionary sample_events) = []"
  using categories_fetched_once
    [where d = coffee_dictionary and evs = sample_events and s = initial
       and rows = "Some [CategoryRow ''Bakery'', CategoryRow ''Cafes'']"
       and r = "Rejected (JsError ''offline'')" and e = "JsError ''offline''"]
  by (simp add: sample_events_def initial_def)

section \<open>The first render\<close>

text \<open>
  C10. The loading flag starts out true, so the first render, made before any effect has
  run and before any query has been awaited, shows the six skeletons. The categories
  effect leaves the flag set. The filters effect, run on the default filters, awaits no
  business query, empties the list and clears the flag: after the mount the flag is
  false.
\<close>

theorem first_render_shows_skeletons:
  "loading initial
   \<and> trace initial = []
   \<and> renderResults initial =
       [BusinessSkeleton 0, BusinessSkeleton 1, BusinessSkeleton 2,
        BusinessSkeleton 3, BusinessSkeleton 4, BusinessSkeleton 5]
   \<and> loading (categoriesEffect initial)
   \<and> trace (mount d) = [Await categoriesQuery, SetBusinesses [], SetLoading False]
   \<and> \<not> loading (mount d)
   \<and> businesses (mount d) = []"
proof -
  have six: "[0..<6] = [0, 1, 2, 3, 4, 5::nat]"
    by (simp add: upt_rec)
  have "loading initial" and "trace initial = []"
    by (simp_all add: initial_def)
  moreover have "renderResults initial =
       [BusinessSkeleton 0, BusinessSkeleton 1, BusinessSkeleton 2,
        BusinessSkeleton 3, BusinessSkeleton 4, BusinessSkeleton 5]"
    by (simp add: renderResults_def initial_def six)
  moreover have "loading (categoriesEffect initial)"
    by (simp add: categoriesEffect_def fetchCategories_issue_def await_def initial_def)
  moreover have "trace (mount d) = [Await categoriesQuery, SetBusinesses [], SetLoading False]"
    and "\<not> loading (mount d)" and "businesses (mount d) = []"
    by (simp_all add: mount_result initial_def)
  ultimately show ?thesis
    by (intro conjI)
qed

theorem first_render_shows_skeletons_witness:
  "renderResults initial =
       [BusinessSkeleton 0, BusinessSkeleton 1, BusinessSkeleton 2,
        BusinessSkeleton 3, BusinessSkeleton 4, BusinessSkeleton 5]
   \<and> awaited (trace initial) = []
   \<and> awaited (trace (mount coffee_dictionary)) =
       [[FromTable ''business_categories'', SelectCols ''name'', OrderBy ''name'' None]]
   \<and> loading (mount coffee_dictionary) = False
   \<and> renderResults (mount coffee_dictionary) =
       [EmptyState ''No businesses found matching your criteria.''
          ''Try adjusting your search filters or browse all categories.'']"
proof -
  note first = first_render_shows_skeletons [of coffee_dictionary]
  have "renderResults (mount coffee_dictionary) =
       [EmptyState ''No businesses found matching your criteria.''
          ''Try adjusting your search filters or browse all categories.'']"
    unfolding renderResults_def using first by simp
  then show ?thesis
    using first by (simp add: categoriesQuery_calls)
qed

end
